theory Spec2Isabelle
  imports Main "HOL-Library.Sublist"
begin

section \<open>Text\<close>

text \<open>
  A JavaScript string is a sequence of UTF-16 code units. The embedding holds a text as a
  \<open>string\<close>, one \<open>char\<close> per code unit, which covers the code units below 256. The
  rename tokens are taken to be ASCII: upper-casing and the case-insensitive comparison
  of the \<open>i\<close> flag are the ASCII ones (without the \<open>u\<close> flag a code unit of 128 or more
  is never canonicalised to an ASCII one, so an ASCII token matches the same texts here
  and in the engine).
\<close>

abbreviation dq :: char where "dq \<equiv> CHR 0x22"
abbreviation sq :: char where "sq \<equiv> CHR 0x27"
abbreviation bsl :: char where "bsl \<equiv> CHR 0x5C"
abbreviation btk :: char where "btk \<equiv> CHR 0x60"
abbreviation nl :: char where "nl \<equiv> CHR 0x0A"

definition toUpper_char :: "char \<Rightarrow> char" where
  "toUpper_char c =
     (case map_of (zip ''abcdefghijklmnopqrstuvwxyz'' ''ABCDEFGHIJKLMNOPQRSTUVWXYZ'') c of
        Some u \<Rightarrow> u
      | None \<Rightarrow> c)"

text \<open>\<open>String.prototype.toUpperCase\<close>.\<close>

definition toUpperCase :: "string \<Rightarrow> string" where
  "toUpperCase s = map toUpper_char s"

definition is_digit :: "char \<Rightarrow> bool" where
  "is_digit c = (c \<in> set ''0123456789'')"

definition digit_val :: "char \<Rightarrow> nat" where
  "digit_val c =
     (case map_of (zip ''0123456789'' [0, 1, 2, 3, 4, 5, 6, 7, 8, 9]) c of
        Some n \<Rightarrow> n
      | None \<Rightarrow> 0)"

text \<open>The word characters of \<open>\b\<close>: letters, digits and the underscore.\<close>

definition is_word_char :: "char \<Rightarrow> bool" where
  "is_word_char c =
     (c \<in> set ''abcdefghijklmnopqrstuvwxyzABCDEFGHIJKLMNOPQRSTUVWXYZ0123456789_'')"


text \<open>\<open>String.prototype.includes\<close>: the second text occurs in the first.\<close>

fun str_includes :: "string \<Rightarrow> string \<Rightarrow> bool" where
  "str_includes [] sub = (sub = [])"
| "str_includes (c # s) sub = (prefix sub (c # s) \<or> str_includes s sub)"

section \<open>Regular expressions\<close>

text \<open>
  The patterns of \<open>engine.ts\<close> are built from literal characters, the dot, character
  classes, \<open>\s\<close>, \<open>\b\<close>, greedy and lazy repetition of one-character items, alternation
  and capture groups. \<open>regex\<close> is the syntax tree of such a pattern.
  An atom matches one code unit: \<open>Lit c\<close> the character \<open>c\<close>, \<open>Dot\<close> anything but a line
  terminator, \<open>Cls neg cs\<close> the class \<open>[cs]\<close>, or \<open>[^cs]\<close> when \<open>neg\<close> holds.
  \<open>Star greedy a\<close> is \<open>a*\<close> or, with \<open>greedy\<close> false, \<open>a*?\<close>.
\<close>

datatype atom = Lit char | Dot | Cls bool "char list"

datatype regex =
    Eps
  | At atom
  | Bnd
  | Seq regex regex
  | Alt regex regex
  | Star bool atom
  | Grp nat regex

text \<open>The flags are \<open>g\<close> or \<open>gi\<close>; \<open>ic\<close> says that \<open>i\<close> is set (Canonicalize).\<close>

definition canon :: "bool \<Rightarrow> char \<Rightarrow> char" where
  "canon ic c = (if ic then toUpper_char c else c)"

fun atom_ok :: "bool \<Rightarrow> atom \<Rightarrow> char \<Rightarrow> bool" where
  "atom_ok ic (Lit c) ch = (canon ic c = canon ic ch)"
| "atom_ok ic Dot ch = (ch \<noteq> nl \<and> ch \<noteq> CHR 0x0D)"
| "atom_ok ic (Cls neg cs) ch = ((canon ic ch \<in> set (map (canon ic) cs)) \<noteq> neg)"

text \<open>
  A position in the subject text: the text before it, reversed, and the text from it on.
  The captures map a group's number to the text it matched last.
\<close>

type_synonym pos = "string \<times> string"
type_synonym caps = "nat \<Rightarrow> string option"
type_synonym cont = "pos \<Rightarrow> caps \<Rightarrow> (pos \<times> caps) option"

definition at_boundary :: "pos \<Rightarrow> bool" where
  "at_boundary p =
     ((case fst p of [] \<Rightarrow> False | b # _ \<Rightarrow> is_word_char b) \<noteq>
      (case snd p of [] \<Rightarrow> False | c # _ \<Rightarrow> is_word_char c))"

text \<open>The text between two positions of the same subject, the second not before the first.\<close>

definition consumed :: "pos \<Rightarrow> pos \<Rightarrow> string" where
  "consumed p q = take (length (snd p) - length (snd q)) (snd p)"

text \<open>
  The backtracking matcher, in the continuation style of the language standard: \<open>k\<close> is
  what remains to be matched after the item, and the first alternative that lets the
  whole match succeed wins. A greedy star tries the longer run first, a lazy one the
  shorter.
\<close>

fun star_m :: "bool \<Rightarrow> bool \<Rightarrow> atom \<Rightarrow> cont \<Rightarrow> string \<Rightarrow> string \<Rightarrow> caps \<Rightarrow> (pos \<times> caps) option" where
  "star_m ic greedy a k bs [] cs = k (bs, []) cs"
| "star_m ic greedy a k bs (c # rest) cs =
     (if atom_ok ic a c then
        (if greedy then
           (case star_m ic greedy a k (c # bs) rest cs of
              Some r \<Rightarrow> Some r
            | None \<Rightarrow> k (bs, c # rest) cs)
         else
           (case k (bs, c # rest) cs of
              Some r \<Rightarrow> Some r
            | None \<Rightarrow> star_m ic greedy a k (c # bs) rest cs))
      else k (bs, c # rest) cs)"

primrec matcher :: "bool \<Rightarrow> regex \<Rightarrow> cont \<Rightarrow> pos \<Rightarrow> caps \<Rightarrow> (pos \<times> caps) option" where
  "matcher ic Eps k p cs = k p cs"
| "matcher ic (At a) k p cs =
     (case snd p of
        [] \<Rightarrow> None
      | c # rest \<Rightarrow> if atom_ok ic a c then k (c # fst p, rest) cs else None)"
| "matcher ic Bnd k p cs = (if at_boundary p then k p cs else None)"
| "matcher ic (Seq r1 r2) k p cs = matcher ic r1 (matcher ic r2 k) p cs"
| "matcher ic (Alt r1 r2) k p cs =
     (case matcher ic r1 k p cs of
        Some r \<Rightarrow> Some r
      | None \<Rightarrow> matcher ic r2 k p cs)"
| "matcher ic (Star greedy a) k p cs = star_m ic greedy a k (fst p) (snd p) cs"
| "matcher ic (Grp n r) k p cs =
     matcher ic r (\<lambda>q cs'. k q (cs'(n := Some (consumed p q)))) p cs"

definition match_at :: "bool \<Rightarrow> regex \<Rightarrow> pos \<Rightarrow> (pos \<times> caps) option" where
  "match_at ic r p = matcher ic r (\<lambda>q cs. Some (q, cs)) p (\<lambda>n. None)"

text \<open>The number of capture groups of a pattern.\<close>

primrec ngroups :: "regex \<Rightarrow> nat" where
  "ngroups Eps = 0"
| "ngroups (At a) = 0"
| "ngroups Bnd = 0"
| "ngroups (Seq r1 r2) = ngroups r1 + ngroups r2"
| "ngroups (Alt r1 r2) = ngroups r1 + ngroups r2"
| "ngroups (Star g a) = 0"
| "ngroups (Grp n r) = Suc (ngroups r)"

subsection \<open>Replacing every match\<close>

text \<open>
  What a replacement sees of one match: the text before it, the matched text, the text
  after it, and the captures.
\<close>

record match_info =
  m_before :: string
  m_text :: string
  m_after :: string
  m_caps :: caps

text \<open>
  \<open>String.prototype.replace\<close> with a global pattern and a replacement function. The scan
  goes left to right over the original text; where the pattern matches, the replacement
  is put out and the scan goes on after the match (one code unit further after an empty
  match); a code unit no match covers is copied.
\<close>

function replace_fn :: "bool \<Rightarrow> regex \<Rightarrow> (match_info \<Rightarrow> string) \<Rightarrow> string \<Rightarrow> string \<Rightarrow> string" where
  "replace_fn ic r f bs [] =
     (case match_at ic r (bs, []) of
        None \<Rightarrow> []
      | Some (q, cs) \<Rightarrow> f \<lparr>m_before = rev bs, m_text = [], m_after = [], m_caps = cs\<rparr>)"
| "replace_fn ic r f bs (c # rest) =
     (case match_at ic r (bs, c # rest) of
        None \<Rightarrow> c # replace_fn ic r f (c # bs) rest
      | Some (q, cs) \<Rightarrow>
          (let n = Suc (length rest) - length (snd q) in
           if n = 0 then
             f \<lparr>m_before = rev bs, m_text = [], m_after = c # rest, m_caps = cs\<rparr>
               @ c # replace_fn ic r f (c # bs) rest
           else
             f \<lparr>m_before = rev bs, m_text = take n (c # rest),
                m_after = drop n (c # rest), m_caps = cs\<rparr>
               @ replace_fn ic r f (rev (take n (c # rest)) @ bs) (drop n (c # rest))))"
  by pat_completeness auto
termination
  by (relation "measure (\<lambda>(ic, r, f, bs, s). length s)") auto

text \<open>
  The replacement patterns of a replacement string (GetSubstitution): \<open>$$\<close>, \<open>$&\<close>, the
  text before and after the match, and \<open>$n\<close>, \<open>$nn\<close> for a capture. \<open>m\<close> is the number of
  groups of the pattern: a two-digit number above \<open>m\<close> is read as one digit and a literal
  digit, and a number that names no group stays as it is written.
\<close>

definition capture_text :: "match_info \<Rightarrow> nat \<Rightarrow> string" where
  "capture_text mi n = (case m_caps mi n of None \<Rightarrow> [] | Some s \<Rightarrow> s)"

fun expand :: "nat \<Rightarrow> string \<Rightarrow> match_info \<Rightarrow> string" where
  "expand m [] mi = []"
| "expand m [c] mi = [c]"
| "expand m (c # d # t) mi =
     (if c \<noteq> CHR ''$'' then c # expand m (d # t) mi
      else if d = CHR ''$'' then CHR ''$'' # expand m t mi
      else if d = CHR ''&'' then m_text mi @ expand m t mi
      else if d = btk then m_before mi @ expand m t mi
      else if d = sq then m_after mi @ expand m t mi
      else if is_digit d then
        (case t of
           [] \<Rightarrow>
             (if 1 \<le> digit_val d \<and> digit_val d \<le> m then capture_text mi (digit_val d)
              else [c, d])
         | e # t' \<Rightarrow>
             (if is_digit e \<and> 10 * digit_val d + digit_val e \<le> m then
                (if 1 \<le> 10 * digit_val d + digit_val e
                 then capture_text mi (10 * digit_val d + digit_val e) @ expand m t' mi
                 else c # d # e # expand m t' mi)
              else if 1 \<le> digit_val d \<and> digit_val d \<le> m
                then capture_text mi (digit_val d) @ expand m (e # t') mi
              else c # d # expand m (e # t') mi))
      else c # expand m (d # t) mi)"

text \<open>\<open>text.replace(new RegExp(pattern, flags), replacement)\<close> with a replacement string.\<close>

definition js_replace :: "bool \<Rightarrow> regex \<Rightarrow> string \<Rightarrow> string \<Rightarrow> string" where
  "js_replace ic r repl s = replace_fn ic r (expand (ngroups r) repl) [] s"

section \<open>The patterns of the engine\<close>

text \<open>
  A pattern is written in the source as a template with the token in it, as in
  \<^verbatim>\<open>new RegExp(`(@${oldName})`, flags)\<close>. The token is pattern text: the embedding reads
  each of its characters as a literal and the dot as the wildcard it is. That is how the
  constructor reads an ASCII token in which none of \<^verbatim>\<open>\ ^ $ * + ? ( ) [ ] { } |\<close>
  occurs; \<open>plain_token\<close> says so, and the theorems about what a pattern matches assume
  it. A token with such a character is outside the embedding: the constructor reads it
  as a pattern of its own, or rejects the pattern with an exception, which \<open>processFile\<close>
  catches like any other.
\<close>

definition seq :: "regex list \<Rightarrow> regex" where
  "seq rs = foldr Seq rs Eps"

definition lits :: "string \<Rightarrow> regex" where
  "lits s = seq (map (\<lambda>c. At (Lit c)) s)"

definition token :: "string \<Rightarrow> regex" where
  "token s = seq (map (\<lambda>c. At (if c = CHR ''.'' then Dot else Lit c)) s)"


definition plus :: "atom \<Rightarrow> regex" where
  "plus a = Seq (At a) (Star True a)"

text \<open>\<open>\s\<close>: tab, line feed, vertical tab, form feed, carriage return, space, no-break space.\<close>

definition space_chars :: "char list" where
  "space_chars = [CHR 0x09, CHR 0x0A, CHR 0x0B, CHR 0x0C, CHR 0x0D, CHR 0x20, CHR 0xA0]"

definition quote_chars :: "char list" where
  "quote_chars = [sq, dq]"

text \<open>\<^verbatim>\<open>(import\s+.*?\s+from\s+['"][^'"]*)${oldName}([^'"]*['"])\<close>, and the same for \<open>export\<close>.\<close>

definition re_from :: "string \<Rightarrow> string \<Rightarrow> regex" where
  "re_from keyword oldName =
     seq [Grp 1 (seq [lits keyword, plus (Cls False space_chars), Star False Dot,
                      plus (Cls False space_chars), lits ''from'', plus (Cls False space_chars),
                      At (Cls False quote_chars), Star True (Cls True quote_chars)]),
          token oldName,
          Grp 2 (seq [Star True (Cls True quote_chars), At (Cls False quote_chars)])]"

text \<open>\<^verbatim>\<open>(require\s*\(\s*['"][^'"]*)${oldName}([^'"]*['"])\<close>\<close>

definition re_require :: "string \<Rightarrow> regex" where
  "re_require oldName =
     seq [Grp 1 (seq [lits ''require'', Star True (Cls False space_chars), At (Lit (CHR ''('')),
                      Star True (Cls False space_chars),
                      At (Cls False quote_chars), Star True (Cls True quote_chars)]),
          token oldName,
          Grp 2 (seq [Star True (Cls True quote_chars), At (Cls False quote_chars)])]"

text \<open>\<^verbatim>\<open>(@${oldName})\<close>\<close>

definition re_scoped :: "string \<Rightarrow> regex" where
  "re_scoped oldName = Grp 1 (seq [At (Lit (CHR ''@'')), token oldName])"

text \<open>\<^verbatim>\<open>\b${oldName}\b\<close>\<close>

definition re_word :: "string \<Rightarrow> regex" where
  "re_word oldName = seq [Bnd, token oldName, Bnd]"

text \<open>\<^verbatim>\<open>(${oldName.toUpperCase()})\<close>\<close>

definition re_upper :: "string \<Rightarrow> regex" where
  "re_upper oldName = Grp 1 (token (toUpperCase oldName))"

text \<open>\<^verbatim>\<open>=${oldName}\<close>\<close>

definition re_assigned :: "string \<Rightarrow> regex" where
  "re_assigned oldName = seq [At (Lit (CHR ''='')), token oldName]"

text \<open>\<^verbatim>\<open>(FROM|image:)\s*([^\s]*${oldName}[^\s]*)\<close>\<close>

definition re_image :: "string \<Rightarrow> regex" where
  "re_image oldName =
     seq [Grp 1 (Alt (lits ''FROM'') (lits ''image:'')), Star True (Cls False space_chars),
          Grp 2 (seq [Star True (Cls True space_chars), token oldName,
                      Star True (Cls True space_chars)])]"

text \<open>\<^verbatim>\<open>(ENV|ARG)\s+(${oldName.toUpperCase()})\<close>\<close>

definition re_envarg :: "string \<Rightarrow> regex" where
  "re_envarg oldName =
     seq [Grp 1 (Alt (lits ''ENV'') (lits ''ARG'')), plus (Cls False space_chars),
          Grp 2 (token (toUpperCase oldName))]"

text \<open>
  The code-span pattern of the Markdown strategy. The source writes it as the string
  literal \<^verbatim>\<open>"(\\\\`\\\\`\\\\[\\\\s\\\\S]*?\\\\`\\\\`\\\\`|\\\\`[^\\\\`]*\\\\`)"\<close>, in which every
  \<^verbatim>\<open>\\\\\<close> is two backslashes of the pattern, that is one literal backslash of the
  subject. The pattern therefore reads: backslash, backtick, backslash, backtick,
  backslash, a lazy run of the class of backslash, \<open>s\<close> and \<open>S\<close>, then three times
  backslash and backtick; or backslash, backtick, a run of anything but backslash and
  backtick, backslash, backtick.
\<close>

definition re_codespan :: regex where
  "re_codespan =
     Grp 1 (Alt
       (seq [lits [bsl, btk, bsl, btk, bsl], Star False (Cls False [bsl, CHR ''s'', bsl, CHR ''S'']),
             lits [bsl, btk, bsl, btk, bsl, btk]])
       (seq [lits [bsl, btk], Star True (Cls True [bsl, btk]), lits [bsl, btk]]))"

text \<open>\<^verbatim>\<open>\[([^\]]*)\]\(([^)]*${oldName}[^)]*)\)\<close>\<close>

definition re_link :: "string \<Rightarrow> regex" where
  "re_link oldName =
     seq [At (Lit (CHR ''['')), Grp 1 (Star True (Cls True [CHR '']''])), lits '']('',
          Grp 2 (seq [Star True (Cls True [CHR '')'']), token oldName,
                      Star True (Cls True [CHR '')''])]),
          At (Lit (CHR '')''))]"

section \<open>The rename options\<close>

text \<open>
  \<open>RenameOptions\<close>, with the fields the file pass reads. \<open>multiMap\<close> holds the entries
  of the object in the order \<open>Object.entries\<close> lists them (keys that are array indices
  first, the other keys in the order of their insertion); \<open>None\<close> is an absent map.
  A flag that is absent reads as false.
\<close>

record RenameOptions =
  oldName :: string
  newName :: string
  dry :: bool
  multiMap :: "(string \<times> string) list option"
  caseSensitive :: bool

text \<open>\<^verbatim>\<open>options.multiMap || { [options.oldName]: options.newName }\<close>: a map that is given
  replaces the single pair, also when it is empty.\<close>

definition renameMap :: "RenameOptions \<Rightarrow> (string \<times> string) list" where
  "renameMap options =
     (case multiMap options of
        Some m \<Rightarrow> m
      | None \<Rightarrow> [(oldName options, newName options)])"

text \<open>\<^verbatim>\<open>options.caseSensitive ? "g" : "gi"\<close>: whether the flag \<open>i\<close> is set.\<close>

definition ignore_case :: "RenameOptions \<Rightarrow> bool" where
  "ignore_case options = (\<not> caseSensitive options)"

section \<open>The rewrite strategies\<close>

subsection \<open>TypeScript and JavaScript\<close>

fun ts_pairs :: "bool \<Rightarrow> (string \<times> string) list \<Rightarrow> string \<Rightarrow> string" where
  "ts_pairs ic [] newContent = newContent"
| "ts_pairs ic ((old, new) # pairs) newContent =
     (let c1 = js_replace ic (re_from ''import'' old) (''$1'' @ new @ ''$2'') newContent;
          c2 = js_replace ic (re_from ''export'' old) (''$1'' @ new @ ''$2'') c1;
          c3 = js_replace ic (re_require old) (''$1'' @ new @ ''$2'') c2;
          c4 = js_replace ic (re_scoped old) (''@'' @ new) c3;
          c5 = js_replace ic (re_word old) new c4
      in ts_pairs ic pairs c5)"

definition processTypeScriptFile :: "string \<Rightarrow> RenameOptions \<Rightarrow> string" where
  "processTypeScriptFile content options =
     ts_pairs (ignore_case options) (renameMap options) content"

subsection \<open>Env files\<close>

fun env_pairs :: "bool \<Rightarrow> (string \<times> string) list \<Rightarrow> string \<Rightarrow> string" where
  "env_pairs ic [] newContent = newContent"
| "env_pairs ic ((old, new) # pairs) newContent =
     (let c1 = js_replace ic (re_upper old) (toUpperCase new) newContent;
          c2 = js_replace ic (re_assigned old) (''='' @ new) c1
      in env_pairs ic pairs c2)"

definition processEnvFile :: "string \<Rightarrow> RenameOptions \<Rightarrow> string" where
  "processEnvFile content options =
     env_pairs (ignore_case options) (renameMap options) content"

subsection \<open>Docker files\<close>

fun docker_pairs :: "bool \<Rightarrow> (string \<times> string) list \<Rightarrow> string \<Rightarrow> string" where
  "docker_pairs ic [] newContent = newContent"
| "docker_pairs ic ((old, new) # pairs) newContent =
     (let c1 = replace_fn ic (re_image old)
                 (\<lambda>mi. capture_text mi 1 @ '' '' @ js_replace ic (token old) new (capture_text mi 2))
                 [] newContent;
          c2 = js_replace ic (re_envarg old) (''$1 '' @ toUpperCase new) c1
      in docker_pairs ic pairs c2)"

definition processDockerFile :: "string \<Rightarrow> RenameOptions \<Rightarrow> string" where
  "processDockerFile content options =
     docker_pairs (ignore_case options) (renameMap options) content"

subsection \<open>Markdown\<close>

fun md_pairs :: "bool \<Rightarrow> (string \<times> string) list \<Rightarrow> string \<Rightarrow> string" where
  "md_pairs ic [] newContent = newContent"
| "md_pairs ic ((old, new) # pairs) newContent =
     (let c1 = replace_fn ic re_codespan
                 (\<lambda>mi. js_replace ic (token old) new (m_text mi)) [] newContent;
          c2 = replace_fn ic (re_link old)
                 (\<lambda>mi. ''['' @ capture_text mi 1 @ '']('' @
                        js_replace ic (token old) new (capture_text mi 2) @ '')'')
                 [] c1;
          c3 = js_replace ic (re_word old) new c2
      in md_pairs ic pairs c3)"

definition processMarkdownFile :: "string \<Rightarrow> RenameOptions \<Rightarrow> string" where
  "processMarkdownFile content options =
     md_pairs (ignore_case options) (renameMap options) content"

section \<open>JSON and YAML\<close>

text \<open>
  The value tree that \<open>JSON.parse\<close> and the YAML parser build. A number is held as the
  text \<open>Number.prototype.toString\<close> prints for it. An object is the list of its own
  properties in the order the engine enumerates them.
\<close>

datatype jvalue =
    JNull
  | JBool bool
  | JNumber string
  | JString string
  | JArray "jvalue list"
  | JObject "(string \<times> jvalue) list"

text \<open>
  The parsers and the YAML serialiser are library code outside the repository; the
  strategies take them as they come. A parser returns the tree, or the message of the
  exception it throws.
\<close>

record libs =
  JSON_parse :: "string \<Rightarrow> string + jvalue"
  YAML_parse :: "string \<Rightarrow> string + jvalue"
  YAML_stringify :: "jvalue \<Rightarrow> string"

subsection \<open>Property assignment\<close>

text \<open>
  An array index is the canonical decimal text of an integer below \<open>2^32 - 1\<close>. An object
  lists its array-index keys first, in ascending order, and its other keys after them in
  the order of their creation.
\<close>

definition index_val :: "string \<Rightarrow> nat" where
  "index_val k = foldl (\<lambda>n c. 10 * n + digit_val c) 0 k"

definition is_array_index :: "string \<Rightarrow> bool" where
  "is_array_index k =
     (k \<noteq> [] \<and> list_all is_digit k \<and> (k = ''0'' \<or> hd k \<noteq> CHR ''0'') \<and>
      length k \<le> 10 \<and> index_val k < 4294967295)"

fun insert_index :: "string \<Rightarrow> 'v \<Rightarrow> (string \<times> 'v) list \<Rightarrow> (string \<times> 'v) list" where
  "insert_index k v [] = [(k, v)]"
| "insert_index k v ((k', v') # obj) =
     (if is_array_index k' \<and> index_val k' < index_val k
      then (k', v') # insert_index k v obj
      else (k, v) # (k', v') # obj)"

text \<open>
  \<^verbatim>\<open>result[key] = v\<close> on an object that began as \<^verbatim>\<open>{}\<close>. The key \<^verbatim>\<open>__proto__\<close> is the
  accessor that \<open>Object.prototype\<close> gives every such object: assigning to it sets the
  prototype, or does nothing, and creates no property. Any other key is overwritten in
  place when the object has it, and created otherwise.
\<close>

definition obj_set :: "(string \<times> 'v) list \<Rightarrow> string \<Rightarrow> 'v \<Rightarrow> (string \<times> 'v) list" where
  "obj_set obj k v =
     (if k = ''__proto__'' then obj
      else if k \<in> set (map fst obj) then map (\<lambda>kv. if fst kv = k then (k, v) else kv) obj
      else if is_array_index k then insert_index k v obj
      else obj @ [(k, v)])"

subsection \<open>The structural rewrite\<close>

text \<open>
  The loop over the rename map that \<open>processValue\<close> runs on a string and on a key:
  \<^verbatim>\<open>s = s.replace(new RegExp(oldName, flags), newName)\<close> for every pair, in order.
\<close>

fun rename_text :: "bool \<Rightarrow> (string \<times> string) list \<Rightarrow> string \<Rightarrow> string" where
  "rename_text ic [] s = s"
| "rename_text ic ((old, new) # pairs) s = rename_text ic pairs (js_replace ic (token old) new s)"

fun processValue :: "bool \<Rightarrow> (string \<times> string) list \<Rightarrow> jvalue \<Rightarrow> jvalue" where
  "processValue ic pairs (JString s) = JString (rename_text ic pairs s)"
| "processValue ic pairs (JArray xs) = JArray (map (processValue ic pairs) xs)"
| "processValue ic pairs (JObject kvs) =
     JObject (foldl (\<lambda>result kv.
                obj_set result (rename_text ic pairs (fst kv)) (processValue ic pairs (snd kv)))
              [] kvs)"
| "processValue ic pairs v = v"

subsection \<open>Serialising\<close>

text \<open>\<open>QuoteJSONString\<close>: the escapes of the quote, the backslash and the control characters.\<close>

definition json_escapes :: "(char \<times> string) list" where
  "json_escapes =
       [(dq, [bsl, dq]), (bsl, [bsl, bsl]),
        (CHR 0x00, bsl # ''u0000''),
        (CHR 0x01, bsl # ''u0001''),
        (CHR 0x02, bsl # ''u0002''),
        (CHR 0x03, bsl # ''u0003''),
        (CHR 0x04, bsl # ''u0004''),
        (CHR 0x05, bsl # ''u0005''),
        (CHR 0x06, bsl # ''u0006''),
        (CHR 0x07, bsl # ''u0007''),
        (CHR 0x08, bsl # ''b''),
        (CHR 0x09, bsl # ''t''),
        (CHR 0x0A, bsl # ''n''),
        (CHR 0x0B, bsl # ''u000b''),
        (CHR 0x0C, bsl # ''f''),
        (CHR 0x0D, bsl # ''r''),
        (CHR 0x0E, bsl # ''u000e''),
        (CHR 0x0F, bsl # ''u000f''),
        (CHR 0x10, bsl # ''u0010''),
        (CHR 0x11, bsl # ''u0011''),
        (CHR 0x12, bsl # ''u0012''),
        (CHR 0x13, bsl # ''u0013''),
        (CHR 0x14, bsl # ''u0014''),
        (CHR 0x15, bsl # ''u0015''),
        (CHR 0x16, bsl # ''u0016''),
        (CHR 0x17, bsl # ''u0017''),
        (CHR 0x18, bsl # ''u0018''),
        (CHR 0x19, bsl # ''u0019''),
        (CHR 0x1A, bsl # ''u001a''),
        (CHR 0x1B, bsl # ''u001b''),
        (CHR 0x1C, bsl # ''u001c''),
        (CHR 0x1D, bsl # ''u001d''),
        (CHR 0x1E, bsl # ''u001e''),
        (CHR 0x1F, bsl # ''u001f'')]"

definition quote_char :: "char \<Rightarrow> string" where
  "quote_char c = (case map_of json_escapes c of Some e \<Rightarrow> e | None \<Rightarrow> [c])"

definition quoteJSON :: "string \<Rightarrow> string" where
  "quoteJSON s = dq # concat (map quote_char s) @ [dq]"

fun join :: "string \<Rightarrow> string list \<Rightarrow> string" where
  "join sep [] = []"
| "join sep [x] = x"
| "join sep (x # y # xs) = x @ sep @ join sep (y # xs)"

text \<open>
  \<open>JSON.stringify(v, null, 2)\<close>: \<open>ind\<close> is the indentation of the enclosing line, and
  every nesting level adds two spaces.
\<close>

fun stringify :: "string \<Rightarrow> jvalue \<Rightarrow> string" where
  "stringify ind JNull = ''null''"
| "stringify ind (JBool b) = (if b then ''true'' else ''false'')"
| "stringify ind (JNumber n) = n"
| "stringify ind (JString s) = quoteJSON s"
| "stringify ind (JArray xs) =
     (if xs = [] then ''[]''
      else ''['' @ [nl] @ ind @ ''  '' @
           join ('','' @ [nl] @ ind @ ''  '') (map (stringify (ind @ ''  '')) xs) @
           [nl] @ ind @ '']'')"
| "stringify ind (JObject kvs) =
     (if kvs = [] then ''{}''
      else ''{'' @ [nl] @ ind @ ''  '' @
           join ('','' @ [nl] @ ind @ ''  '')
             (map (\<lambda>kv. quoteJSON (fst kv) @ '': '' @ stringify (ind @ ''  '') (snd kv)) kvs) @
           [nl] @ ind @ ''}'')"

definition JSON_stringify2 :: "jvalue \<Rightarrow> string" where
  "JSON_stringify2 v = stringify [] v"

subsection \<open>The two strategies\<close>

text \<open>
  A strategy returns the new text and the lines it wrote to the console. The warning is
  the source's line without the warning sign that starts it.
\<close>

definition processJsonFile :: "libs \<Rightarrow> string \<Rightarrow> RenameOptions \<Rightarrow> string \<times> string list" where
  "processJsonFile lib content options =
     (case JSON_parse lib content of
        Inr data \<Rightarrow>
          (JSON_stringify2 (processValue (ignore_case options) (renameMap options) data), [])
      | Inl message \<Rightarrow>
          (content, [''Failed to parse JSON file, treating as plain text: '' @ message]))"

definition processYamlFile :: "libs \<Rightarrow> string \<Rightarrow> RenameOptions \<Rightarrow> string \<times> string list" where
  "processYamlFile lib content options =
     (case YAML_parse lib content of
        Inr data \<Rightarrow>
          (YAML_stringify lib (processValue (ignore_case options) (renameMap options) data), [])
      | Inl message \<Rightarrow>
          (content, [''Failed to parse YAML file, treating as plain text: '' @ message]))"

section \<open>Processing one file\<close>

subsection \<open>The classifier\<close>

text \<open>
  \<open>path.extname\<close> of Node, for POSIX paths: the text from the last dot of the last
  segment of the path, or the empty text when that segment has no dot, starts with its
  only dot, or is \<open>..\<close>.
\<close>

definition extname :: "string \<Rightarrow> string" where
  "extname path =
     (let base = rev (takeWhile (\<lambda>c. c \<noteq> CHR ''/'') (dropWhile (\<lambda>c. c = CHR ''/'') (rev path)));
          after = rev (takeWhile (\<lambda>c. c \<noteq> CHR ''.'') (rev base));
          before = take (length base - length after - 1) base
      in if CHR ''.'' \<notin> set base \<or> before = [] \<or> base = ''..'' then []
         else CHR ''.'' # after)"

datatype strategy = TsJs | Json | Yaml | Env | Docker | Markdown

text \<open>
  The chain of tests at the head of \<open>processFile\<close>, in its order; \<open>None\<close> when no
  branch is taken and the content stays as it was read.
\<close>

definition select_strategy :: "string \<Rightarrow> strategy option" where
  "select_strategy filePath =
     (let ext = extname filePath in
      if ext \<in> set [''.ts'', ''.tsx'', ''.js'', ''.jsx''] then Some TsJs
      else if ext \<in> set [''.json''] then Some Json
      else if ext \<in> set [''.yml'', ''.yaml''] then Some Yaml
      else if str_includes filePath ''env'' then Some Env
      else if str_includes filePath ''Dockerfile'' \<or> str_includes filePath ''docker-compose''
        then Some Docker
      else if ext \<in> set [''.md''] then Some Markdown
      else None)"

fun apply_strategy :: "libs \<Rightarrow> strategy option \<Rightarrow> string \<Rightarrow> RenameOptions \<Rightarrow> string \<times> string list" where
  "apply_strategy lib (Some TsJs) content options = (processTypeScriptFile content options, [])"
| "apply_strategy lib (Some Json) content options = processJsonFile lib content options"
| "apply_strategy lib (Some Yaml) content options = processYamlFile lib content options"
| "apply_strategy lib (Some Env) content options = (processEnvFile content options, [])"
| "apply_strategy lib (Some Docker) content options = (processDockerFile content options, [])"
| "apply_strategy lib (Some Markdown) content options = (processMarkdownFile content options, [])"
| "apply_strategy lib None content options = (content, [])"

subsection \<open>The file system\<close>

text \<open>
  The part of the world a run touches: the content of every file that can be read, the
  paths that cannot be written, every call of \<open>fs.writeFile\<close> so far with its path and
  content, and the lines on the console.
\<close>

record world =
  files :: "string \<Rightarrow> string option"
  unwritable :: "string set"
  writes :: "(string \<times> string) list"
  console :: "string list"

text \<open>\<open>fs.readFile(path, "utf8")\<close>: the content, or the message of the exception.\<close>

definition readFile :: "world \<Rightarrow> string \<Rightarrow> string + string" where
  "readFile w path =
     (case files w path of
        Some content \<Rightarrow> Inr content
      | None \<Rightarrow> Inl (''ENOENT: no such file or directory, open '' @ path))"

text \<open>\<open>fs.writeFile(path, content, "utf8")\<close>: the call is recorded, and it fails on a
  path that cannot be written.\<close>

definition writeFile :: "world \<Rightarrow> string \<Rightarrow> string \<Rightarrow> string + world" where
  "writeFile w path content =
     (if path \<in> unwritable w then Inl (''EACCES: permission denied, open '' @ path)
      else Inr (w\<lparr>files := (files w)(path := Some content)\<rparr>))"

subsection \<open>processFile\<close>

record FileOutcome =
  processed :: bool
  modified :: bool
  error :: "string option"

text \<open>
  \<open>processFile\<close>: read, rewrite, compare, write. Whatever is thrown inside is caught and
  becomes the outcome's error.
\<close>

definition processFile :: "libs \<Rightarrow> world \<Rightarrow> string \<Rightarrow> RenameOptions \<Rightarrow> FileOutcome \<times> world" where
  "processFile lib w filePath options =
     (case readFile w filePath of
        Inl message \<Rightarrow> (\<lparr>processed = False, modified = False, error = Some message\<rparr>, w)
      | Inr content \<Rightarrow>
          (let (newContent, lines) = apply_strategy lib (select_strategy filePath) content options;
               w1 = w\<lparr>console := console w @ lines\<rparr>;
               changed = (newContent \<noteq> content)
           in if changed \<and> \<not> dry options then
                (let w2 = w1\<lparr>writes := writes w1 @ [(filePath, newContent)]\<rparr> in
                 case writeFile w2 filePath newContent of
                   Inl message \<Rightarrow>
                     (\<lparr>processed = False, modified = False, error = Some message\<rparr>, w2)
                 | Inr w3 \<Rightarrow> (\<lparr>processed = True, modified = changed, error = None\<rparr>, w3))
              else (\<lparr>processed = True, modified = changed, error = None\<rparr>, w1)))"

section \<open>The file pass of runSafeRename\<close>






section \<open>Notions the properties are stated with\<close>

subsection \<open>Replacing a literal text\<close>





subsection \<open>The rules of the code strategy, by name\<close>








subsection \<open>The classifier as the specification words it\<close>


subsection \<open>A place inside a value\<close>







text \<open>The loop of \<open>processValue\<close> over the entries of an object, from any start.\<close>

definition rebuild :: "bool \<Rightarrow> (string \<times> string) list \<Rightarrow> (string \<times> jvalue) list \<Rightarrow> (string \<times> jvalue) list \<Rightarrow> (string \<times> jvalue) list" where
  "rebuild ic pairs acc kvs =
     foldl (\<lambda>result kv. obj_set result (rename_text ic pairs (fst kv)) (processValue ic pairs (snd kv))) acc kvs"

subsection \<open>Fixed points of a strategy\<close>




section \<open>Sample inputs\<close>

text \<open>
  Concrete inputs at which the theorems below are instantiated. \<open>sample_parse\<close> stands
  for the library parser at the two texts the samples use.
\<close>

definition rename_foo :: RenameOptions where
  "rename_foo =
     \<lparr>oldName = ''foo'', newName = ''bar'', dry = False, multiMap = None, caseSensitive = False\<rparr>"

definition broken_json :: string where
  "broken_json = ''{'' @ [dq] @ ''invalid'' @ [dq] @ '': json}''"

definition nested_json :: string where
  "nested_json = ''{'' @ [dq] @ ''a'' @ [dq] @ '': [{'' @ [dq] @ ''foo-key'' @ [dq] @ '': '' @ [dq] @ ''my foo'' @ [dq] @ ''}]}''"

definition nested_tree :: jvalue where
  "nested_tree = JObject [(''a'', JArray [JObject [(''foo-key'', JString ''my foo'')]])]"

definition sample_parse :: "string \<Rightarrow> string + jvalue" where
  "sample_parse s =
     (if s = nested_json then Inr nested_tree else Inl ''Unexpected token j in JSON at position 12'')"

definition sample_lib :: libs where
  "sample_lib = \<lparr>JSON_parse = sample_parse, YAML_parse = sample_parse, YAML_stringify = JSON_stringify2\<rparr>"

definition sample_world :: world where
  "sample_world =
     \<lparr>files = [''src/a.ts'' \<mapsto> ''let foo = 1;'', ''package.json'' \<mapsto> broken_json,
               ''notes.txt'' \<mapsto> ''foo'', ''locked.js'' \<mapsto> ''foo()''],
      unwritable = {''locked.js''}, writes = [], console = []\<rparr>"







definition rename_acme :: RenameOptions where
  "rename_acme =
     \<lparr>oldName = ''acme'', newName = ''widget'', dry = False, multiMap = None,
      caseSensitive = False\<rparr>"

section \<open>Lemmas\<close>

subsection \<open>The matcher on a literal token\<close>









lemma consumed_drop: "n \<le> length s \<Longrightarrow> consumed (bs, s) (bs', drop n s) = take n s"
  by (simp add: consumed_def)






subsection \<open>Objects\<close>

lemma map_of_replace_key:
  "map_of (map (\<lambda>kv. if fst kv = k then (k, v) else kv) obj) x =
     (if x = k then (if k \<in> fst ` set obj then Some v else None) else map_of obj x)"
  by (induction obj) force+

lemma map_of_insert_index:
  "k \<notin> fst ` set obj \<Longrightarrow>
   map_of (insert_index k v obj) x = (if x = k then Some v else map_of obj x)"
  by (induction obj) force+

lemma map_of_snoc:
  "k \<notin> fst ` set obj \<Longrightarrow>
   map_of (obj @ [(k, v)]) x = (if x = k then Some v else map_of obj x)"
  by (induction obj) force+

lemma map_of_obj_set:
  "map_of (obj_set obj k v) x =
     (if k = ''__proto__'' then map_of obj x else if x = k then Some v else map_of obj x)"
  by (simp add: obj_set_def map_of_replace_key map_of_insert_index map_of_snoc
           del: map_of_append)

lemma set_insert_index: "set (insert_index k v obj) = insert (k, v) (set obj)"
  by (induction obj) (auto split: if_splits)

lemma keys_insert_index: "fst ` set (insert_index k v obj) = insert k (fst ` set obj)"
  by (simp add: set_insert_index)

lemma keys_replace_key:
  "map fst (map (\<lambda>kv. if fst kv = k then (k, v) else kv) obj) = map fst obj"
  by (induction obj) auto

lemma keys_obj_set:
  "fst ` set (obj_set obj k v) =
     (if k = ''__proto__'' then fst ` set obj else insert k (fst ` set obj))"
proof -
  have "set (map fst (map (\<lambda>kv. if fst kv = k then (k, v) else kv) obj)) = set (map fst obj)"
    by (simp only: keys_replace_key)
  then have "fst ` set (map (\<lambda>kv. if fst kv = k then (k, v) else kv) obj) = fst ` set obj"
    by (simp only: set_map)
  then show ?thesis
    by (auto simp: obj_set_def keys_insert_index)
qed

lemma distinct_insert_index:
  "k \<notin> fst ` set obj \<Longrightarrow> distinct (map fst obj) \<Longrightarrow> distinct (map fst (insert_index k v obj))"
  by (induction obj) (auto simp: keys_insert_index)

lemma distinct_obj_set:
  "distinct (map fst obj) \<Longrightarrow> distinct (map fst (obj_set obj k v))"
  by (simp add: obj_set_def distinct_insert_index keys_replace_key del: map_map)

lemma processValue_JObject: "processValue ic pairs (JObject kvs) = JObject (rebuild ic pairs [] kvs)"
  by (simp add: rebuild_def)

lemma rebuild_Nil: "rebuild ic pairs acc [] = acc"
  by (simp add: rebuild_def)

lemma rebuild_Cons:
  "rebuild ic pairs acc (kv # kvs) =
     rebuild ic pairs (obj_set acc (rename_text ic pairs (fst kv)) (processValue ic pairs (snd kv))) kvs"
  by (simp add: rebuild_def)

lemma rebuild_append:
  "rebuild ic pairs acc (xs @ ys) = rebuild ic pairs (rebuild ic pairs acc xs) ys"
  by (simp add: rebuild_def)

lemma rebuild_distinct:
  "distinct (map fst acc) \<Longrightarrow> distinct (map fst (rebuild ic pairs acc kvs))"
  by (induction kvs arbitrary: acc) (simp_all add: rebuild_Nil rebuild_Cons distinct_obj_set)

lemma rebuild_untouched:
  "x \<notin> set (map (\<lambda>kv. rename_text ic pairs (fst kv)) kvs) \<Longrightarrow>
   map_of (rebuild ic pairs acc kvs) x = map_of acc x"
  by (induction kvs arbitrary: acc) (auto simp: rebuild_Nil rebuild_Cons map_of_obj_set)

lemma rebuild_last_wins:
  assumes "rename_text ic pairs k \<noteq> ''__proto__''"
    and "rename_text ic pairs k \<notin> set (map (\<lambda>kv. rename_text ic pairs (fst kv)) after)"
  shows "map_of (rebuild ic pairs acc (before @ (k, v) # after)) (rename_text ic pairs k) =
           Some (processValue ic pairs v)"
  using assms
  by (simp add: rebuild_append rebuild_Cons rebuild_untouched map_of_obj_set del: set_map)

lemma rebuild_proto:
  "map_of (rebuild ic pairs acc kvs) ''__proto__'' = map_of acc ''__proto__''"
  by (induction kvs arbitrary: acc) (auto simp: rebuild_Nil rebuild_Cons map_of_obj_set)

subsection \<open>The file pass\<close>

















section \<open>The unit tests of the engine\<close>

text \<open>
  The inputs of the repository's tests of the six strategies, with the whole output that
  the embedding computes; each contains the text the test expects. The JSON tests are
  run on the parsed tree.
\<close>

lemma test_rename_import:
  "processTypeScriptFile (''import { something } from '' @ [sq] @ ''old-package'' @ [sq] @ '';'')
     \<lparr>oldName = ''old-package'', newName = ''new-package'', dry = False, multiMap = None, caseSensitive = False\<rparr> =
   ''import { something } from '' @ [sq] @ ''new-package'' @ [sq] @ '';''"
  by code_simp

lemma test_rename_export:
  "processTypeScriptFile (''export { something } from '' @ [sq] @ ''old-package'' @ [sq] @ '';'')
     \<lparr>oldName = ''old-package'', newName = ''new-package'', dry = False, multiMap = None, caseSensitive = False\<rparr> =
   ''export { something } from '' @ [sq] @ ''new-package'' @ [sq] @ '';''"
  by code_simp

lemma test_rename_require:
  "processTypeScriptFile (''const pkg = require('' @ [sq] @ ''old-package'' @ [sq] @ '');'')
     \<lparr>oldName = ''old-package'', newName = ''new-package'', dry = False, multiMap = None, caseSensitive = False\<rparr> =
   ''const pkg = require('' @ [sq] @ ''new-package'' @ [sq] @ '');''"
  by code_simp

lemma test_rename_scoped:
  "processTypeScriptFile (''import { something } from '' @ [sq] @ ''@company/old-name'' @ [sq] @ '';'')
     \<lparr>oldName = ''@company/old-name'', newName = ''@company/new-name'', dry = False, multiMap = None, caseSensitive = False\<rparr> =
   ''import { something } from '' @ [sq] @ ''@company/new-name'' @ [sq] @ '';''"
  by code_simp

lemma test_multi_map:
  "processTypeScriptFile ([nl] @ ''        import { a } from '' @ [sq] @ ''pkg1'' @ [sq] @ '';'' @ [nl] @ ''        import { b } from '' @ [sq] @ ''pkg2'' @ [sq] @ '';'' @ [nl] @ ''      '')
     \<lparr>oldName = ''pkg1'', newName = ''newpkg1'', dry = False, multiMap = Some [(''pkg1'', ''newpkg1''), (''pkg2'', ''newpkg2'')], caseSensitive = False\<rparr> =
   [nl] @ ''        import { a } from '' @ [sq] @ ''newpkg1'' @ [sq] @ '';'' @ [nl] @ ''        import { b } from '' @ [sq] @ ''newpkg2'' @ [sq] @ '';'' @ [nl] @ ''      ''"
  by code_simp

lemma test_case_sensitive:
  "processTypeScriptFile (''const MyComponent = '' @ [sq] @ ''test'' @ [sq] @ '';'')
     \<lparr>oldName = ''MyComponent'', newName = ''MyNewComponent'', dry = False, multiMap = None, caseSensitive = True\<rparr> =
   ''const MyNewComponent = '' @ [sq] @ ''test'' @ [sq] @ '';''"
  by code_simp

lemma test_env_rename:
  "processEnvFile (''OLD_VAR=value'' @ [nl] @ ''OTHER=test'')
     \<lparr>oldName = ''OLD_VAR'', newName = ''NEW_VAR'', dry = False, multiMap = None, caseSensitive = False\<rparr> =
   ''NEW_VAR=value'' @ [nl] @ ''OTHER=test''"
  by code_simp

lemma test_env_uppercase:
  "processEnvFile (''old_var=value'')
     \<lparr>oldName = ''old_var'', newName = ''new_var'', dry = False, multiMap = None, caseSensitive = False\<rparr> =
   ''NEW_VAR=value''"
  by code_simp

lemma test_docker_from:
  "processDockerFile (''FROM old-registry/image:tag'')
     \<lparr>oldName = ''old-registry'', newName = ''new-registry'', dry = False, multiMap = None, caseSensitive = False\<rparr> =
   ''FROM new-registry/image:tag''"
  by code_simp

lemma test_docker_image:
  "processDockerFile (''image: old-service:latest'')
     \<lparr>oldName = ''old-service'', newName = ''new-service'', dry = False, multiMap = None, caseSensitive = False\<rparr> =
   ''image: new-service:latest''"
  by code_simp

lemma test_docker_env:
  "processDockerFile (''ENV OLD_VAR=value'')
     \<lparr>oldName = ''OLD_VAR'', newName = ''NEW_VAR'', dry = False, multiMap = None, caseSensitive = False\<rparr> =
   ''ENV NEW_VAR=value''"
  by code_simp

lemma test_md_code_block:
  "processMarkdownFile ([btk, btk, btk] @ ''javascript'' @ [nl] @ ''import '' @ [sq] @ ''old-package'' @ [sq] @ '';'' @ [nl, btk, btk, btk])
     \<lparr>oldName = ''old-package'', newName = ''new-package'', dry = False, multiMap = None, caseSensitive = False\<rparr> =
   [btk, btk, btk] @ ''javascript'' @ [nl] @ ''import '' @ [sq] @ ''new-package'' @ [sq] @ '';'' @ [nl, btk, btk, btk]"
  by code_simp

lemma test_md_inline_code:
  "processMarkdownFile (''Use '' @ [btk] @ ''old-package'' @ [btk] @ '' for testing.'')
     \<lparr>oldName = ''old-package'', newName = ''new-package'', dry = False, multiMap = None, caseSensitive = False\<rparr> =
   ''Use '' @ [btk] @ ''new-package'' @ [btk] @ '' for testing.''"
  by code_simp

lemma test_md_link:
  "processMarkdownFile (''[Link](https://example.com/old-package/docs)'')
     \<lparr>oldName = ''old-package'', newName = ''new-package'', dry = False, multiMap = None, caseSensitive = False\<rparr> =
   ''[Link](https://example.com/new-package/docs)''"
  by code_simp

lemma test_md_text:
  "processMarkdownFile (''This is about old-package.'')
     \<lparr>oldName = ''old-package'', newName = ''new-package'', dry = False, multiMap = None, caseSensitive = False\<rparr> =
   ''This is about new-package.''"
  by code_simp

lemma test_json_string_values:
  "JSON_stringify2 (processValue True [(''old-package'', ''new-package'')]
     (JObject [(''name'', JString ''old-package''), (''version'', JString ''1.0.0'')])) =
   ''{'' @ [nl] @ ''  '' @ [dq] @ ''name'' @ [dq] @ '': '' @ [dq] @ ''new-package'' @ [dq] @ '','' @ [nl] @
   ''  '' @ [dq] @ ''version'' @ [dq] @ '': '' @ [dq] @ ''1.0.0'' @ [dq] @ [nl] @ ''}''"
  by code_simp

lemma test_json_nested_keys:
  "JSON_stringify2 (processValue True [(''old-key'', ''new-key'')]
     (JObject [(''nested'', JObject [(''old-key'', JString ''value'')])])) =
   ''{'' @ [nl] @ ''  '' @ [dq] @ ''nested'' @ [dq] @ '': {'' @ [nl] @
   ''    '' @ [dq] @ ''new-key'' @ [dq] @ '': '' @ [dq] @ ''value'' @ [dq] @ [nl] @
   ''  }'' @ [nl] @ ''}''"
  by code_simp

lemma test_json_arrays:
  "processValue True [(''old-item'', ''new-item'')]
     (JObject [(''items'', JArray [JString ''old-item'', JString ''other''])]) =
   JObject [(''items'', JArray [JString ''new-item'', JString ''other''])]"
  by code_simp

section \<open>The claims\<close>

subsection \<open>C1: a file is written if and only if its content changed and the run is not a preview\<close>

lemma sample_ts_rewrite:
  "fst (apply_strategy sample_lib (select_strategy ''src/a.ts'') ''let foo = 1;'' rename_foo) = ''let bar = 1;''"
  "fst (apply_strategy sample_lib (select_strategy ''src/a.ts'') ''let foo = 1;'' (rename_foo\<lparr>dry := True\<rparr>)) = ''let bar = 1;''"
  by code_simp+

text \<open>
  Claim C1. For every file the driver processes: in preview (dry) mode no write is
  performed, whether or not the rewritten content differs; with preview mode off the
  file is written back, with the rewritten content, if and only if that content differs
  from the one read, so a write that changes nothing is never issued. \<open>writes\<close> is the
  list of all calls of \<open>fs.writeFile\<close>.
\<close>

theorem processFile_write_iff_changed:
  assumes "processFile lib w filePath options = (r, w')"
  shows "(dry options \<longrightarrow> writes w' = writes w \<and> files w' = files w) \<and>
         (files w filePath = None \<longrightarrow> writes w' = writes w) \<and>
         (\<forall>content newContent.
            \<not> dry options \<and> files w filePath = Some content \<and>
            newContent = fst (apply_strategy lib (select_strategy filePath) content options) \<longrightarrow>
              (newContent \<noteq> content \<longrightarrow> writes w' = writes w @ [(filePath, newContent)]) \<and>
              (newContent = content \<longrightarrow> writes w' = writes w \<and> files w' = files w))"
  using assms
  by (auto simp: processFile_def readFile_def writeFile_def Let_def
           split: option.splits prod.splits if_splits)

theorem processFile_write_iff_changed_witness:
  "writes (snd (processFile sample_lib sample_world ''src/a.ts'' (rename_foo\<lparr>dry := True\<rparr>))) = [] \<and>
   writes (snd (processFile sample_lib sample_world ''src/a.ts'' rename_foo)) = [(''src/a.ts'', ''let bar = 1;'')] \<and>
   writes (snd (processFile sample_lib sample_world ''notes.txt'' rename_foo)) = []"
proof -
  have f: "files sample_world ''src/a.ts'' = Some ''let foo = 1;''"
          "files sample_world ''notes.txt'' = Some ''foo''"
          "writes sample_world = []"
    by (simp_all add: sample_world_def)
  have n: "fst (apply_strategy sample_lib (select_strategy ''notes.txt'') ''foo'' rename_foo) = ''foo''"
    by code_simp
  have d: "dry (rename_foo\<lparr>dry := True\<rparr>)" "\<not> dry rename_foo"
    by (simp_all add: rename_foo_def)
  show ?thesis
    using processFile_write_iff_changed
            [where lib = sample_lib and w = sample_world and filePath = "''src/a.ts''"
               and options = "rename_foo\<lparr>dry := True\<rparr>", OF prod.collapse [symmetric]]
          processFile_write_iff_changed
            [where lib = sample_lib and w = sample_world and filePath = "''src/a.ts''"
               and options = rename_foo, OF prod.collapse [symmetric]]
          processFile_write_iff_changed
            [where lib = sample_lib and w = sample_world and filePath = "''notes.txt''"
               and options = rename_foo, OF prod.collapse [symmetric]]
    by (simp add: f n d sample_ts_rewrite)
qed

subsection \<open>C2: one outcome per file, failures kept local\<close>






subsection \<open>C3: text that does not parse is left as it is\<close>

text \<open>
  Claim C3. When the JSON (or YAML) parser rejects the text, the strategy returns the
  text unchanged, with no textual rewrite, and logs one warning; nothing is thrown
  (the result is a value). In \<open>processFile\<close> the file then counts as processed and not
  modified, without an error and without a write: the world changes by the warning only.
\<close>

theorem parse_failure_leaves_file:
  "(JSON_parse lib content = Inl message \<longrightarrow>
      processJsonFile lib content options =
        (content, [''Failed to parse JSON file, treating as plain text: '' @ message]) \<and>
      (files w path = Some content \<and> select_strategy path = Some Json \<longrightarrow>
         processFile lib w path options =
           (\<lparr>processed = True, modified = False, error = None\<rparr>,
            w\<lparr>console := console w @
                 [''Failed to parse JSON file, treating as plain text: '' @ message]\<rparr>))) \<and>
   (YAML_parse lib content = Inl message \<longrightarrow>
      processYamlFile lib content options =
        (content, [''Failed to parse YAML file, treating as plain text: '' @ message]) \<and>
      (files w path = Some content \<and> select_strategy path = Some Yaml \<longrightarrow>
         processFile lib w path options =
           (\<lparr>processed = True, modified = False, error = None\<rparr>,
            w\<lparr>console := console w @
                 [''Failed to parse YAML file, treating as plain text: '' @ message]\<rparr>)))"
  by (simp add: processJsonFile_def processYamlFile_def processFile_def readFile_def)

theorem parse_failure_leaves_file_witness:
  "JSON_parse sample_lib broken_json = Inl ''Unexpected token j in JSON at position 12'' \<and>
   files sample_world ''package.json'' = Some broken_json \<and>
   select_strategy ''package.json'' = Some Json \<and>
   processFile sample_lib sample_world ''package.json'' rename_foo =
     (\<lparr>processed = True, modified = False, error = None\<rparr>,
      sample_world\<lparr>console :=
        [''Failed to parse JSON file, treating as plain text: Unexpected token j in JSON at position 12'']\<rparr>)"
proof -
  have p: "JSON_parse sample_lib broken_json = Inl ''Unexpected token j in JSON at position 12''"
    by code_simp
  have f: "files sample_world ''package.json'' = Some broken_json"
    by (simp add: sample_world_def)
  have c: "console sample_world = []"
    by (simp add: sample_world_def)
  have s: "select_strategy ''package.json'' = Some Json"
    by code_simp
  show ?thesis
    using parse_failure_leaves_file
            [of sample_lib broken_json "''Unexpected token j in JSON at position 12''"
                rename_foo sample_world "''package.json''"]
    by (simp add: p f s c)
qed

subsection \<open>C4: the order of the classifier\<close>





subsection \<open>C5: the five rules of the code strategy, pair after pair\<close>




subsection \<open>C6: the structural rewrite at any depth\<close>






subsection \<open>C7: the Env strategy\<close>






subsection \<open>C8: a second run\<close>





subsection \<open>C9: code spans in Markdown\<close>

text \<open>
  The pattern that should find fenced and inline code spans begins, in both of its
  alternatives, with a literal backslash: it matches escaped backticks, not code spans.
  On a text without a backslash the rule does nothing.
\<close>

lemma canon_bsl: "canon ic bsl = canon ic c \<longleftrightarrow> c = bsl"
  by (auto simp: canon_def toUpper_char_def split: if_splits)

lemma lits_Cons: "lits (c # s) = Seq (At (Lit c)) (lits s)"
  by (simp add: lits_def seq_def)

lemma codespan_needs_backslash:
  "match_at ic re_codespan (bs, []) = None"
  "bsl \<noteq> c \<Longrightarrow> match_at ic re_codespan (bs, c # s) = None"
  by (auto simp: match_at_def re_codespan_def seq_def lits_Cons canon_bsl)

lemma codespan_rule_idle:
  "bsl \<notin> set s \<Longrightarrow> replace_fn ic re_codespan f bs s = s"
  by (induction s arbitrary: bs) (simp_all add: codespan_needs_backslash)

text \<open>
  Claim C9 says that an occurrence of the old token inside a code span is found by the
  code-span pattern and rewritten in place, as one inside a link target is. At the text
  of one inline code span, \<^verbatim>\<open>`acme_cli`\<close>, with the rename of \<open>acme\<close> to \<open>widget\<close>, the
  strategy returns the text as it was (the whole-word rule does not apply either, the
  underscore being a word character), while the link target with the same occurrence is
  rewritten, and so is the span when its backticks are escaped.
\<close>

theorem markdown_code_span_untouched:
  "processMarkdownFile ([btk] @ ''acme_cli'' @ [btk]) rename_acme = [btk] @ ''acme_cli'' @ [btk] \<and>
   processMarkdownFile ''[x](http://h/acme_cli)'' rename_acme = ''[x](http://h/widget_cli)'' \<and>
   processMarkdownFile ([bsl, btk] @ ''acme_cli'' @ [bsl, btk]) rename_acme =
     [bsl, btk] @ ''widget_cli'' @ [bsl, btk]"
  by code_simp

theorem markdown_code_span_untouched_witness:
  "select_strategy ''README.md'' = Some Markdown \<and>
   apply_strategy sample_lib (select_strategy ''README.md'') ([btk] @ ''acme_cli'' @ [btk]) rename_acme =
     ([btk] @ ''acme_cli'' @ [btk], [])"
proof -
  have sel: "select_strategy ''README.md'' = Some Markdown" by code_simp
  show ?thesis
    using markdown_code_span_untouched by (simp add: sel)
qed

subsection \<open>C10: keys that collide after renaming\<close>

lemma object_rewrite_later_entry_wins:
  assumes "rename_text ic pairs k \<noteq> ''__proto__''"
    and "rename_text ic pairs k \<notin> set (map (\<lambda>kv. rename_text ic pairs (fst kv)) after)"
    and "processValue ic pairs (JObject (before @ (k, v) # after)) = JObject obj"
  shows "map_of obj (rename_text ic pairs k) = Some (processValue ic pairs v)"
    and "distinct (map fst obj)"
    and "''__proto__'' \<notin> set (map fst obj)"
proof -
  from assms(3) have obj: "obj = rebuild ic pairs [] (before @ (k, v) # after)"
    by (simp add: processValue_JObject del: processValue.simps(3))
  show "map_of obj (rename_text ic pairs k) = Some (processValue ic pairs v)"
    unfolding obj using assms(1,2) by (rule rebuild_last_wins)
  show "distinct (map fst obj)"
    unfolding obj by (rule rebuild_distinct) simp
  have "map_of obj ''__proto__'' = None"
    unfolding obj by (simp add: rebuild_proto)
  then show "''__proto__'' \<notin> set (map fst obj)"
    by (simp add: map_of_eq_None_iff)
qed

text \<open>
  Claim C10 says that when two entries of an object get the same new key, the later one
  overwrites the earlier one, and that the output never has a key twice. That holds for
  every new key but \<^verbatim>\<open>__proto__\<close> (\<open>object_rewrite_later_entry_wins\<close>). When the new key is
  \<^verbatim>\<open>__proto__\<close> the assignment creates no property: of the two colliding entries neither
  is in the output, and an entry whose key is \<^verbatim>\<open>__proto__\<close> from the start is dropped as
  well.
\<close>

theorem proto_key_collision_drops_both:
  "processValue True [(''old'', ''proto'')]
     (JObject [(''__old__'', JNumber ''1''), (''__proto__'', JNumber ''2'')]) = JObject [] \<and>
   processValue True [(''old'', ''new'')] (JObject [(''__proto__'', JString ''old'')]) = JObject []"
  by code_simp

theorem proto_key_collision_drops_both_witness:
  "JSON_stringify2 (processValue True [(''old'', ''proto'')]
     (JObject [(''__old__'', JNumber ''1''), (''__proto__'', JNumber ''2'')])) = ''{}''"
  using proto_key_collision_drops_both by (simp add: JSON_stringify2_def)

end
